theory Spec2Isabelle
  imports Main
begin

section \<open>Errors\<close>

text \<open>
  The two ways \<open>strconv.Atoi\<close> fails: the text is not a decimal integer, or the integer
  does not fit Go's 64-bit \<open>int\<close>.
\<close>

datatype num_error = ErrSyntax | ErrRange

text \<open>
  The error values of the package. The four sentinels are the package-level variables of
  the annotation parser; \<open>Wrapf cause msg\<close> is \<open>errors.Wrapf(cause, "%s", msg)\<close>, a fresh
  error value that is not equal to the sentinel \<open>msg\<close>; \<open>Errorf\<close> is \<open>fmt.Errorf\<close> with its
  format and arguments; \<open>External\<close> is an error handed back by a collaborator outside the
  package (an informer store or indexer, a lister, the quantity parser, the snapshot
  builder); \<open>PanicNilDereference\<close> is not an error return but the run-time panic of reading
  a field through a nil pointer.
\<close>

datatype error =
    errMissingMinAnnotation
  | errMissingMaxAnnotation
  | errInvalidMinAnnotation
  | errInvalidMaxAnnotation
  | Wrapf num_error error
  | Errorf string "fmtarg list"
  | External string
  | PanicNilDereference
and fmtarg = ArgStr string | ArgInt int | ArgErr error

section \<open>Annotation parser\<close>

type_synonym annotations = "string \<rightharpoonup> string"

definition nodeGroupInstanceCPUCapacity :: string where
  "nodeGroupInstanceCPUCapacity = ''machine.openshift.io/instance-cpu-capacity''"

definition nodeGroupInstanceMemoryCapacity :: string where
  "nodeGroupInstanceMemoryCapacity = ''machine.openshift.io/instance-memory-capacity''"

definition nodeGroupInstancePodCapacity :: string where
  "nodeGroupInstancePodCapacity = ''machine.openshift.io/instance-pod-capacity''"

definition nodeGroupMaxSizeAnnotationKey :: string where
  "nodeGroupMaxSizeAnnotationKey =
     ''machine.openshift.io/cluster-api-autoscaler-node-group-max-size''"

definition nodeGroupMinSizeAnnotationKey :: string where
  "nodeGroupMinSizeAnnotationKey =
     ''machine.openshift.io/cluster-api-autoscaler-node-group-min-size''"

definition nodeGroupScaleFromZero :: string where
  "nodeGroupScaleFromZero = ''machine.openshift.io/scale-from-zero''"

subsection \<open>\<open>strconv.Atoi\<close>\<close>

text \<open>
  The standard library's \<open>Atoi\<close> on a 64-bit platform: an optional sign, then one or more
  decimal digits and nothing else; the value must lie in \<open>-2^63 .. 2^63 - 1\<close>.
\<close>

text \<open>
  One step of the digit loop: \<open>ch -= '0'\<close> on a byte wraps around, so \<open>ch > 9\<close> afterwards
  says that the byte was below \<open>'0'\<close> (48) or above \<open>'9'\<close> (57).
\<close>

definition digit_of :: "char \<Rightarrow> nat option" where
  "digit_of ch =
     (let b = (of_char ch :: nat) in if b < 48 \<or> 57 < b then None else Some (b - 48))"

fun digits_value :: "nat \<Rightarrow> string \<Rightarrow> nat option" where
  "digits_value n [] = Some n"
| "digits_value n (ch # s) =
     (case digit_of ch of None \<Rightarrow> None | Some d \<Rightarrow> digits_value (n * 10 + d) s)"

definition Atoi :: "string \<Rightarrow> num_error + int" where
  "Atoi s0 =
     (case s0 of
        [] \<Rightarrow> Inl ErrSyntax
      | c # r \<Rightarrow>
          (let s = (if c = CHR ''-'' \<or> c = CHR ''+'' then r else s0) in
           if s = [] then Inl ErrSyntax
           else (case digits_value 0 s of
                   None \<Rightarrow> Inl ErrSyntax
                 | Some n \<Rightarrow>
                     if c = CHR ''-''
                     then (if 2 ^ 63 < n then Inl ErrRange else Inr (- int n))
                     else (if 2 ^ 63 \<le> n then Inl ErrRange else Inr (int n)))))"

subsection \<open>Scaling bounds\<close>

text \<open>
  Go's \<open>(int, error)\<close> results are kept as pairs: on an error the functions return the
  value \<open>0\<close> next to it, and \<open>parseScalingBounds\<close> goes on to use that \<open>0\<close> when the error is
  one of the two missing-annotation sentinels.
\<close>

definition minSize :: "annotations \<Rightarrow> int \<times> error option" where
  "minSize annotations =
     (case annotations nodeGroupMinSizeAnnotationKey of
        None \<Rightarrow> (0, Some errMissingMinAnnotation)
      | Some val \<Rightarrow>
          (case Atoi val of
             Inl err \<Rightarrow> (0, Some (Wrapf err errInvalidMinAnnotation))
           | Inr i \<Rightarrow> (i, None)))"

definition maxSize :: "annotations \<Rightarrow> int \<times> error option" where
  "maxSize annotations =
     (case annotations nodeGroupMaxSizeAnnotationKey of
        None \<Rightarrow> (0, Some errMissingMaxAnnotation)
      | Some val \<Rightarrow>
          (case Atoi val of
             Inl err \<Rightarrow> (0, Some (Wrapf err errInvalidMaxAnnotation))
           | Inr i \<Rightarrow> (i, None)))"

definition parseScalingBounds :: "annotations \<Rightarrow> int \<times> int \<times> error option" where
  "parseScalingBounds annotations =
     (case minSize annotations of (minSz, err) \<Rightarrow>
        if err \<noteq> None \<and> err \<noteq> Some errMissingMinAnnotation then (0, 0, err)
        else if minSz < 0 then (0, 0, Some errInvalidMinAnnotation)
        else (case maxSize annotations of (maxSz, err') \<Rightarrow>
          if err' \<noteq> None \<and> err' \<noteq> Some errMissingMaxAnnotation then (0, 0, err')
          else if maxSz < 0 then (0, 0, Some errInvalidMaxAnnotation)
          else if maxSz < minSz then (0, 0, Some errInvalidMaxAnnotation)
          else (minSz, maxSz, None)))"

text \<open>
  The error kinds of the specification, read off the error values of the code:
  \<open>MissingBound\<close> is either missing-annotation sentinel, \<open>InvalidBoundValue\<close> is either
  invalid-annotation sentinel, bare or as the message of a wrapped \<open>Atoi\<close> failure.
\<close>

fun isMissingBound :: "error \<Rightarrow> bool" where
  "isMissingBound errMissingMinAnnotation = True"
| "isMissingBound errMissingMaxAnnotation = True"
| "isMissingBound _ = False"

fun isInvalidBoundValue :: "error \<Rightarrow> bool" where
  "isInvalidBoundValue errInvalidMinAnnotation = True"
| "isInvalidBoundValue errInvalidMaxAnnotation = True"
| "isInvalidBoundValue (Wrapf _ errInvalidMinAnnotation) = True"
| "isInvalidBoundValue (Wrapf _ errInvalidMaxAnnotation) = True"
| "isInvalidBoundValue _ = False"

text \<open>Indexing a Go map: a key that is not there reads as the empty string.\<close>

definition mapIndex :: "annotations \<Rightarrow> string \<Rightarrow> string" where
  "mapIndex m k = (case m k of None \<Rightarrow> [] | Some v \<Rightarrow> v)"

definition scaleFromZeroEnabled :: "annotations \<Rightarrow> bool" where
  "scaleFromZeroEnabled annotations = (mapIndex annotations nodeGroupScaleFromZero = ''true'')"

subsection \<open>Capacity hints\<close>

text \<open>
  \<open>resource.ParseQuantity\<close> belongs to the Kubernetes API machinery; it is the parameter
  \<open>ParseQuantity\<close>, and \<open>'q\<close> is its quantity type.
\<close>

definition parseCPUCapacity ::
  "(string \<Rightarrow> error + 'q) \<Rightarrow> annotations \<Rightarrow> error + 'q option" where
  "parseCPUCapacity ParseQuantity annotations =
     (case annotations nodeGroupInstanceCPUCapacity of
        None \<Rightarrow> Inr None
      | Some val \<Rightarrow>
          if val \<noteq> [] then
            (case ParseQuantity val of Inl err \<Rightarrow> Inl err | Inr q \<Rightarrow> Inr (Some q))
          else Inr None)"

definition parseMemoryCapacity ::
  "(string \<Rightarrow> error + 'q) \<Rightarrow> annotations \<Rightarrow> error + 'q option" where
  "parseMemoryCapacity ParseQuantity annotations =
     (case annotations nodeGroupInstanceMemoryCapacity of
        None \<Rightarrow> Inr None
      | Some val \<Rightarrow>
          if val \<noteq> [] then
            (case ParseQuantity val of Inl err \<Rightarrow> Inl err | Inr q \<Rightarrow> Inr (Some q))
          else Inr None)"

definition parsePodCapacity ::
  "(string \<Rightarrow> error + 'q) \<Rightarrow> annotations \<Rightarrow> error + 'q option" where
  "parsePodCapacity ParseQuantity annotations =
     (case annotations nodeGroupInstancePodCapacity of
        None \<Rightarrow> Inr None
      | Some val \<Rightarrow>
          if val \<noteq> [] then
            (case ParseQuantity val of Inl err \<Rightarrow> Inl err | Inr q \<Rightarrow> Inr (Some q))
          else Inr None)"

text \<open>The result triple is in the order of the source: cpu, memory, pods.\<close>

definition parseCapacityValues ::
  "(string \<Rightarrow> error + 'q) \<Rightarrow> annotations
     \<Rightarrow> error + ('q option \<times> 'q option \<times> 'q option)" where
  "parseCapacityValues ParseQuantity annotations =
     (case parseMemoryCapacity ParseQuantity annotations of
        Inl err \<Rightarrow> Inl err
      | Inr mem \<Rightarrow>
          (case parseCPUCapacity ParseQuantity annotations of
             Inl err \<Rightarrow> Inl err
           | Inr cpu \<Rightarrow>
               (case parsePodCapacity ParseQuantity annotations of
                  Inl err \<Rightarrow> Inl err
                | Inr pods \<Rightarrow> Inr (cpu, mem, pods))))"

section \<open>Watched resources\<close>

text \<open>
  The fields of the API objects that the controller reads. Pointer fields that may be nil
  (\<open>Spec.ProviderID\<close>, \<open>Status.NodeRef\<close>, \<open>Spec.Replicas\<close>) are options. \<open>DeepCopy\<close> is the
  identity on values. \<open>Spec.Replicas\<close> is an \<open>int32\<close>; it is only compared with \<open>0\<close>.
\<close>

record OwnerReference =
  ref_Kind :: string
  ref_Name :: string
  ref_UID :: string

record ObjectReference =
  or_Kind :: string
  or_Name :: string

record Machine =
  m_Namespace :: string
  m_Name :: string
  m_Labels :: "string \<rightharpoonup> string"
  m_OwnerReferences :: "OwnerReference list"
  m_ProviderID :: "string option"
  m_NodeRef :: "ObjectReference option"

record MachineSet =
  ms_Namespace :: string
  ms_Name :: string
  ms_UID :: string
  ms_Labels :: "string \<rightharpoonup> string"
  ms_Annotations :: annotations
  ms_OwnerReferences :: "OwnerReference list"
  ms_Replicas :: "int option"

record MachineDeployment =
  md_Namespace :: string
  md_Name :: string
  md_UID :: string
  md_Annotations :: annotations
  md_Replicas :: "int option"

record Node =
  node_Name :: string
  node_ProviderID :: string
  node_Annotations :: annotations

text \<open>
  What an informer store hands back is an \<open>interface{}\<close>: a pointer of one of the four
  watched types, which may be a nil pointer of that type, or something else, on which the
  type assertion of the caller fails.
\<close>

datatype obj =
    ObjMachine "Machine option"
  | ObjMachineSet "MachineSet option"
  | ObjMachineDeployment "MachineDeployment option"
  | ObjNode "Node option"
  | ObjOther

section \<open>Ownership\<close>

definition machineOwnerRef :: "Machine \<Rightarrow> OwnerReference option" where
  "machineOwnerRef machine =
     find (\<lambda>ref. ref_Kind ref = ''MachineSet'' \<and> ref_Name ref \<noteq> []) (m_OwnerReferences machine)"

definition machineIsOwnedByMachineSet :: "Machine \<Rightarrow> MachineSet \<Rightarrow> bool" where
  "machineIsOwnedByMachineSet machine machineSet =
     (case machineOwnerRef machine of
        Some ref \<Rightarrow> ref_UID ref = ms_UID machineSet
      | None \<Rightarrow> False)"

definition machineSetMachineDeploymentRef :: "MachineSet \<Rightarrow> OwnerReference option" where
  "machineSetMachineDeploymentRef machineSet =
     find (\<lambda>ref. ref_Kind ref = ''MachineDeployment'') (ms_OwnerReferences machineSet)"

definition machineSetHasMachineDeploymentOwnerRef :: "MachineSet \<Rightarrow> bool" where
  "machineSetHasMachineDeploymentOwnerRef machineSet =
     (machineSetMachineDeploymentRef machineSet \<noteq> None)"

definition machineSetIsOwnedByMachineDeployment ::
  "MachineSet \<Rightarrow> MachineDeployment \<Rightarrow> bool" where
  "machineSetIsOwnedByMachineDeployment machineSet machineDeployment =
     (case machineSetMachineDeploymentRef machineSet of
        Some ref \<Rightarrow> ref_UID ref = md_UID machineDeployment
      | None \<Rightarrow> False)"

section \<open>The machine controller\<close>

text \<open>
  The controller reads its informers and nothing else, so it is modelled by what they
  answer. A store's \<open>GetByKey\<close> returns \<open>(item, exists, err)\<close>: \<open>Inl err\<close>, or \<open>Inr None\<close>
  when the key does not exist, or \<open>Inr (Some item)\<close>. An indexer's \<open>ByIndex\<close> for one of
  the two provider-ID indices returns \<open>(objs, err)\<close>. The three fields \<open>cachedMachines\<close>,
  \<open>cachedMachineSets\<close> and \<open>cachedMachineDeployments\<close> are what listing the respective
  informer cache returns, an error or the objects in enumeration order; listed pointers
  are not nil. The constant \<open>machineAnnotationKey\<close> is declared in a file of the package
  that is not at hand; it is carried as a field, and no result depends on its value.
\<close>

record machineController =
  machineStore :: "string \<Rightarrow> error + obj option"
  machineSetStore :: "string \<Rightarrow> error + obj option"
  machineDeploymentStore :: "string \<Rightarrow> error + obj option"
  nodeStore :: "string \<Rightarrow> error + obj option"
  machineProviderIDIndex :: "string \<Rightarrow> error + obj list"
  nodeProviderIDIndex :: "string \<Rightarrow> error + obj list"
  cachedMachines :: "error + Machine list"
  cachedMachineSets :: "error + MachineSet list"
  cachedMachineDeployments :: "error + MachineDeployment list"
  enableMachineDeployments :: bool
  machineAnnotationKey :: string

definition findMachine :: "machineController \<Rightarrow> string \<Rightarrow> error + Machine option" where
  "findMachine c id' =
     (case machineStore c id' of
        Inl err \<Rightarrow> Inl err
      | Inr None \<Rightarrow> Inr None
      | Inr (Some item) \<Rightarrow>
          (case item of
             ObjMachine machine \<Rightarrow> Inr machine
           | _ \<Rightarrow> Inl (Errorf ''internal error; unexpected type %T'' [ArgStr ''*Machine''])))"

definition findMachineDeployment ::
  "machineController \<Rightarrow> string \<Rightarrow> error + MachineDeployment option" where
  "findMachineDeployment c id' =
     (case machineDeploymentStore c id' of
        Inl err \<Rightarrow> Inl err
      | Inr None \<Rightarrow> Inr None
      | Inr (Some item) \<Rightarrow>
          (case item of
             ObjMachineDeployment machineDeployment \<Rightarrow> Inr machineDeployment
           | _ \<Rightarrow> Inl (Errorf ''internal error; unexpected type %T''
                        [ArgStr ''*MachineDeployment''])))"

text \<open>
  A nil \<open>*MachineSet\<close> in the store passes the type assertion and is then read through by
  \<open>machineIsOwnedByMachineSet\<close> (the machine has an owner reference at that point), which
  panics.
\<close>

definition findMachineOwner :: "machineController \<Rightarrow> Machine \<Rightarrow> error + MachineSet option" where
  "findMachineOwner c machine =
     (case machineOwnerRef machine of
        None \<Rightarrow> Inr None
      | Some ownerRef \<Rightarrow>
          (case machineSetStore c (m_Namespace machine @ ''/'' @ ref_Name ownerRef) of
             Inl err \<Rightarrow> Inl err
           | Inr None \<Rightarrow> Inr None
           | Inr (Some item) \<Rightarrow>
               (case item of
                  ObjMachineSet None \<Rightarrow> Inl PanicNilDereference
                | ObjMachineSet (Some machineSet) \<Rightarrow>
                    if \<not> machineIsOwnedByMachineSet machine machineSet then Inr None
                    else Inr (Some machineSet)
                | _ \<Rightarrow> Inl (Errorf ''internal error; unexpected type: %T''
                             [ArgStr ''*MachineSet'']))))"

definition findNodeByProviderID :: "machineController \<Rightarrow> string \<Rightarrow> error + Node option" where
  "findNodeByProviderID c providerID =
     (case nodeProviderIDIndex c providerID of
        Inl err \<Rightarrow> Inl err
      | Inr objs \<Rightarrow>
          (let n = length objs in
           if n = 0 then Inr None
           else if n > 1 then
             Inl (Errorf ''internal error; expected len==1, got %v'' [ArgInt (int n)])
           else (case hd objs of
                   ObjNode node \<Rightarrow> Inr node
                 | _ \<Rightarrow> Inl (Errorf ''internal error; unexpected type %T''
                              [ArgStr ''*Node'']))))"

definition findMachineByProviderID ::
  "machineController \<Rightarrow> string \<Rightarrow> error + Machine option" where
  "findMachineByProviderID c providerID =
     (case machineProviderIDIndex c providerID of
        Inl err \<Rightarrow> Inl err
      | Inr objs \<Rightarrow>
          (let n = length objs;
               indexed =
                 (if n > 1 then
                    Inl (Errorf ''internal error; expected len==1, got %v'' [ArgInt (int n)])
                  else if n = 1 then
                    (case hd objs of
                       ObjMachine machine \<Rightarrow> Inr machine
                     | _ \<Rightarrow> Inl (Errorf ''internal error; unexpected type %T''
                                  [ArgStr ''*Machine'']))
                  else Inr None)
           in case indexed of
                Inl err \<Rightarrow> Inl err
              | Inr (Some machine) \<Rightarrow> Inr (Some machine)
              | Inr None \<Rightarrow>
                  (case findNodeByProviderID c providerID of
                     Inl err \<Rightarrow> Inl err
                   | Inr None \<Rightarrow> Inr None
                   | Inr (Some node) \<Rightarrow>
                       findMachine c
                         (mapIndex (node_Annotations node) (machineAnnotationKey c)))))"

definition findNodeByNodeName :: "machineController \<Rightarrow> string \<Rightarrow> error + Node option" where
  "findNodeByNodeName c name =
     (case nodeStore c name of
        Inl err \<Rightarrow> Inl err
      | Inr None \<Rightarrow> Inr None
      | Inr (Some item) \<Rightarrow>
          (case item of
             ObjNode node \<Rightarrow> Inr node
           | _ \<Rightarrow> Inl (Errorf ''internal error; unexpected type %T'' [ArgStr ''*Node''])))"

subsection \<open>Listing the caches\<close>

text \<open>
  Modelled from the spec: the bodies of \<open>listMachines\<close>, \<open>listMachineSets\<close> and
  \<open>listMachineDeployments\<close> are placeholders in the source at hand (each is
  \<open>return nil, nil\<close>, the registration of the three informers being commented out), so
  what they list is missing. Following sections 4.1 and 4.4 of the specification they
  enumerate the cache of their kind, and a store-level error is an error of the listing;
  \<open>listMachines\<close> selects "all Machines whose label set matches the group's selector". A
  selector built by \<open>labels.SelectorFromSet\<close> from a label set is that label set, and it
  matches the labels that contain it. The placeholders are the instances
  \<open>cachedMachines c = Inr []\<close>, \<open>cachedMachineSets c = Inr []\<close> and
  \<open>cachedMachineDeployments c = Inr []\<close>.
\<close>

definition listMachines ::
  "machineController \<Rightarrow> (string \<rightharpoonup> string) \<Rightarrow> error + Machine list" where
  "listMachines c options =
     (case cachedMachines c of
        Inl err \<Rightarrow> Inl err
      | Inr machines \<Rightarrow> Inr (filter (\<lambda>machine. options \<subseteq>\<^sub>m m_Labels machine) machines))"

definition listMachineSets :: "machineController \<Rightarrow> error + MachineSet list" where
  "listMachineSets c = cachedMachineSets c"

definition listMachineDeployments :: "machineController \<Rightarrow> error + MachineDeployment list" where
  "listMachineDeployments c = cachedMachineDeployments c"

subsection \<open>Members of a machine set\<close>

definition machinesInMachineSet ::
  "machineController \<Rightarrow> MachineSet \<Rightarrow> error + Machine list" where
  "machinesInMachineSet c machineSet =
     (case listMachines c (ms_Labels machineSet) of
        Inl err \<Rightarrow> Inl err
      | Inr machines \<Rightarrow>
          Inr (filter (\<lambda>machine. machineIsOwnedByMachineSet machine machineSet) machines))"

text \<open>
  The loop of \<open>machineSetNodeNames\<close> over the machines, with the slice \<open>nodes\<close> built so
  far. A machine whose provider ID finds no node falls through to its node reference.
\<close>

fun machineSetNodeNames_loop ::
  "machineController \<Rightarrow> string list \<Rightarrow> Machine list \<Rightarrow> error + string list" where
  "machineSetNodeNames_loop c nodes [] = Inr nodes"
| "machineSetNodeNames_loop c nodes (machine # machines) =
     (case (case m_ProviderID machine of
              None \<Rightarrow> Inr None
            | Some providerID \<Rightarrow>
                if providerID \<noteq> [] then findNodeByProviderID c providerID else Inr None) of
        Inl err \<Rightarrow> Inl err
      | Inr (Some node) \<Rightarrow> machineSetNodeNames_loop c (nodes @ [node_ProviderID node]) machines
      | Inr None \<Rightarrow>
          (case m_NodeRef machine of
             None \<Rightarrow> machineSetNodeNames_loop c nodes machines
           | Some nodeRef \<Rightarrow>
               if or_Kind nodeRef \<noteq> ''Node'' then machineSetNodeNames_loop c nodes machines
               else (case findNodeByNodeName c (or_Name nodeRef) of
                       Inl err \<Rightarrow> Inl (Errorf ''unknown node %q'' [ArgStr (or_Name nodeRef)])
                     | Inr (Some node) \<Rightarrow>
                         machineSetNodeNames_loop c (nodes @ [node_ProviderID node]) machines
                     | Inr None \<Rightarrow> machineSetNodeNames_loop c nodes machines)))"

definition machineSetNodeNames ::
  "machineController \<Rightarrow> MachineSet \<Rightarrow> error + string list" where
  "machineSetNodeNames c machineSet =
     (case machinesInMachineSet c machineSet of
        Inl err \<Rightarrow> Inl (Errorf ''error listing machines: %v'' [ArgErr err])
      | Inr machines \<Rightarrow> machineSetNodeNames_loop c [] machines)"

subsection \<open>Node groups\<close>

text \<open>
  Modelled from the spec: the type \<open>nodegroup\<close>, its methods \<open>MinSize\<close> and \<open>MaxSize\<close> and
  its constructors \<open>newNodegroupFromMachineSet\<close> and \<open>newNodegroupFromMachineDeployment\<close>
  are in a file of the package that is not at hand. By section 3 a scaling group has a
  minimum and a maximum size, "both derived from metadata", and "the underlying concrete
  resource it wraps"; by section 4.4 the bounds are derived "via 4.2", that is by
  \<open>parseScalingBounds\<close> from the annotations of the resource, and a resource whose bounds
  are invalid gives no group but the error of the parser.
\<close>

datatype scalableResource =
    MachineSetResource MachineSet
  | MachineDeploymentResource MachineDeployment

record nodegroup =
  ng_minSize :: int
  ng_maxSize :: int
  ng_scalableResource :: scalableResource

definition MinSize :: "nodegroup \<Rightarrow> int" where
  "MinSize ng = ng_minSize ng"

definition MaxSize :: "nodegroup \<Rightarrow> int" where
  "MaxSize ng = ng_maxSize ng"

definition newNodegroupFromMachineSet ::
  "machineController \<Rightarrow> MachineSet \<Rightarrow> error + nodegroup" where
  "newNodegroupFromMachineSet c machineSet =
     (case parseScalingBounds (ms_Annotations machineSet) of
        (minSz, maxSz, Some err) \<Rightarrow> Inl err
      | (minSz, maxSz, None) \<Rightarrow>
          Inr \<lparr>ng_minSize = minSz, ng_maxSize = maxSz,
               ng_scalableResource = MachineSetResource machineSet\<rparr>)"

definition newNodegroupFromMachineDeployment ::
  "machineController \<Rightarrow> MachineDeployment \<Rightarrow> error + nodegroup" where
  "newNodegroupFromMachineDeployment c machineDeployment =
     (case parseScalingBounds (md_Annotations machineDeployment) of
        (minSz, maxSz, Some err) \<Rightarrow> Inl err
      | (minSz, maxSz, None) \<Rightarrow>
          Inr \<lparr>ng_minSize = minSz, ng_maxSize = maxSz,
               ng_scalableResource = MachineDeploymentResource machineDeployment\<rparr>)"

text \<open>\<open>pointer.Int32PtrDerefOr\<close>.\<close>

definition Int32PtrDerefOr :: "int option \<Rightarrow> int \<Rightarrow> int" where
  "Int32PtrDerefOr ptr def = (case ptr of None \<Rightarrow> def | Some v \<Rightarrow> v)"

subsection \<open>The catalog of node groups\<close>

text \<open>
  A \<open>machineSetFilterFunc\<close> is a closure; the variable it captures and appends to is
  passed through as \<open>'s\<close>, and the function returns its error next to the new value of it.
\<close>

fun filterMachineSets_loop ::
  "(MachineSet \<Rightarrow> 's \<Rightarrow> error option \<times> 's) \<Rightarrow> MachineSet list \<Rightarrow> 's \<Rightarrow> error option \<times> 's" where
  "filterMachineSets_loop f [] s = (None, s)"
| "filterMachineSets_loop f (machineSet # machineSets) s =
     (case f machineSet s of
        (Some err, s') \<Rightarrow> (Some err, s')
      | (None, s') \<Rightarrow> filterMachineSets_loop f machineSets s')"

text \<open>
  The parameter \<open>namespace\<close> is not used by the source. When the listing fails the source
  returns \<open>nil\<close>, not the error.
\<close>

definition filterMachineSets ::
  "machineController \<Rightarrow> string \<Rightarrow> (MachineSet \<Rightarrow> 's \<Rightarrow> error option \<times> 's) \<Rightarrow> 's
     \<Rightarrow> error option \<times> 's" where
  "filterMachineSets c namespace f s =
     (case listMachineSets c of
        Inl err \<Rightarrow> (None, s)
      | Inr machineSets \<Rightarrow> filterMachineSets_loop f machineSets s)"

definition NamespaceAll :: string where
  "NamespaceAll = []"

definition filterAllMachineSets ::
  "machineController \<Rightarrow> (MachineSet \<Rightarrow> 's \<Rightarrow> error option \<times> 's) \<Rightarrow> 's \<Rightarrow> error option \<times> 's" where
  "filterAllMachineSets c f s = filterMachineSets c NamespaceAll f s"

text \<open>The function literal that \<open>machineSetNodeGroups\<close> passes to the filter.\<close>

definition machineSetNodeGroups_func ::
  "machineController \<Rightarrow> MachineSet \<Rightarrow> nodegroup list \<Rightarrow> error option \<times> nodegroup list" where
  "machineSetNodeGroups_func c machineSet nodegroups =
     (if machineSetHasMachineDeploymentOwnerRef machineSet then (None, nodegroups)
      else (case newNodegroupFromMachineSet c machineSet of
              Inl err \<Rightarrow> (Some err, nodegroups)
            | Inr ng \<Rightarrow>
                if MaxSize ng - MinSize ng > 0
                   \<and> Int32PtrDerefOr (ms_Replicas machineSet) 0 > 0
                then (None, nodegroups @ [ng])
                else (None, nodegroups)))"

definition machineSetNodeGroups :: "machineController \<Rightarrow> error + nodegroup list" where
  "machineSetNodeGroups c =
     (case filterAllMachineSets c (machineSetNodeGroups_func c) [] of
        (Some err, nodegroups) \<Rightarrow> Inl err
      | (None, nodegroups) \<Rightarrow> Inr nodegroups)"

fun machineDeploymentNodeGroups_loop ::
  "machineController \<Rightarrow> nodegroup list \<Rightarrow> MachineDeployment list \<Rightarrow> error + nodegroup list" where
  "machineDeploymentNodeGroups_loop c nodegroups [] = Inr nodegroups"
| "machineDeploymentNodeGroups_loop c nodegroups (md # machineDeployments) =
     (case newNodegroupFromMachineDeployment c md of
        Inl err \<Rightarrow> Inl err
      | Inr ng \<Rightarrow>
          if MaxSize ng - MinSize ng > 0 \<and> Int32PtrDerefOr (md_Replicas md) 0 > 0
          then machineDeploymentNodeGroups_loop c (nodegroups @ [ng]) machineDeployments
          else machineDeploymentNodeGroups_loop c nodegroups machineDeployments)"

definition machineDeploymentNodeGroups :: "machineController \<Rightarrow> error + nodegroup list" where
  "machineDeploymentNodeGroups c =
     (if \<not> enableMachineDeployments c then Inr []
      else (case listMachineDeployments c of
              Inl err \<Rightarrow> Inl err
            | Inr machineDeployments \<Rightarrow>
                machineDeploymentNodeGroups_loop c [] machineDeployments))"

definition nodeGroups :: "machineController \<Rightarrow> error + nodegroup list" where
  "nodeGroups c =
     (case machineSetNodeGroups c of
        Inl err \<Rightarrow> Inl err
      | Inr machineSets \<Rightarrow>
          (case machineDeploymentNodeGroups c of
             Inl err \<Rightarrow> Inl err
           | Inr machineDeployments \<Rightarrow> Inr (machineSets @ machineDeployments)))"

subsection \<open>The group of a node\<close>

definition nodeGroupForNode :: "machineController \<Rightarrow> Node \<Rightarrow> error + nodegroup option" where
  "nodeGroupForNode c node =
     (case findMachineByProviderID c (node_ProviderID node) of
        Inl err \<Rightarrow> Inl err
      | Inr None \<Rightarrow> Inr None
      | Inr (Some machine) \<Rightarrow>
          (case findMachineOwner c machine of
             Inl err \<Rightarrow> Inl err
           | Inr None \<Rightarrow> Inr None
           | Inr (Some machineSet) \<Rightarrow>
               (case (if enableMachineDeployments c
                      then machineSetMachineDeploymentRef machineSet else None) of
                  Some ref \<Rightarrow>
                    (let key = ms_Namespace machineSet @ ''/'' @ ref_Name ref in
                     case findMachineDeployment c key of
                       Inl err \<Rightarrow>
                         Inl (Errorf ''unknown MachineDeployment %q: %v'' [ArgStr key, ArgErr err])
                     | Inr None \<Rightarrow> Inl (Errorf ''unknown MachineDeployment %q'' [ArgStr key])
                     | Inr (Some machineDeployment) \<Rightarrow>
                         (case newNodegroupFromMachineDeployment c machineDeployment of
                            Inl err \<Rightarrow>
                              Inl (Errorf ''failed to build nodegroup for node %q: %v''
                                     [ArgStr (node_Name node), ArgErr err])
                          | Inr ng \<Rightarrow>
                              if MaxSize ng - MinSize ng < 1 then Inr None
                              else Inr (Some ng)))
                | None \<Rightarrow>
                    (case newNodegroupFromMachineSet c machineSet of
                       Inl err \<Rightarrow>
                         Inl (Errorf ''failed to build nodegroup for node %q: %v''
                                [ArgStr (node_Name node), ArgErr err])
                     | Inr ng \<Rightarrow>
                         if MaxSize ng - MinSize ng < 1 then Inr None
                         else Inr (Some ng)))))"

section \<open>The refresh gate of the cluster manager\<close>

text \<open>
  Instants and durations are counted in nanoseconds, as \<open>time.Duration\<close> is. The type of
  a snapshot and \<open>getClusterSnaphot\<close>, which builds one, are not in the files at hand:
  \<open>'s\<close> is the snapshot type and the builder is the parameter \<open>getClusterSnaphot\<close>,
  returning Go's pair of a snapshot pointer and an error. \<open>Refresh\<close> reads the clock
  twice: \<open>now\<close> is the reading of the test and \<open>now'\<close> the reading stored after a rebuild.
\<close>

definition Second :: int where
  "Second = 1000000000"

definition refreshInterval :: int where
  "refreshInterval = 30 * Second"

record 's clusterManager =
  lastRefresh :: int
  clusterSnapshot :: "'s option"

definition getClusterState :: "'s clusterManager \<Rightarrow> 's option" where
  "getClusterState m = clusterSnapshot m"

definition setClusterState :: "'s clusterManager \<Rightarrow> 's option \<Rightarrow> 's clusterManager" where
  "setClusterState m s = m\<lparr>clusterSnapshot := s\<rparr>"

definition Refresh ::
  "('s clusterManager \<Rightarrow> 's option \<times> error option) \<Rightarrow> 's clusterManager \<Rightarrow> int \<Rightarrow> int
     \<Rightarrow> 's clusterManager \<times> error option" where
  "Refresh getClusterSnaphot m now now' =
     (if now < lastRefresh m + refreshInterval \<and> clusterSnapshot m \<noteq> None then (m, None)
      else (case getClusterSnaphot m of
              (s, err) \<Rightarrow>
                if err = None then (setClusterState (m\<lparr>lastRefresh := now'\<rparr>) s, None)
                else (m, err)))"

section \<open>Properties of the annotation parser\<close>

lemmas key_defs = nodeGroupInstanceCPUCapacity_def nodeGroupInstanceMemoryCapacity_def
  nodeGroupInstancePodCapacity_def nodeGroupMaxSizeAnnotationKey_def nodeGroupMinSizeAnnotationKey_def

lemma parseCPUCapacity_upd:
  "parseCPUCapacity ParseQuantity (annotations(k := v)) =
     (if k = nodeGroupInstanceCPUCapacity
      then (case v of None \<Rightarrow> Inr None
            | Some val \<Rightarrow> parseCPUCapacity ParseQuantity [nodeGroupInstanceCPUCapacity \<mapsto> val])
      else parseCPUCapacity ParseQuantity annotations)"
  by (simp add: parseCPUCapacity_def split: option.splits)

lemma parseMemoryCapacity_upd:
  "parseMemoryCapacity ParseQuantity (annotations(k := v)) =
     (if k = nodeGroupInstanceMemoryCapacity
      then (case v of None \<Rightarrow> Inr None
            | Some val \<Rightarrow> parseMemoryCapacity ParseQuantity [nodeGroupInstanceMemoryCapacity \<mapsto> val])
      else parseMemoryCapacity ParseQuantity annotations)"
  by (simp add: parseMemoryCapacity_def split: option.splits)

lemma parsePodCapacity_upd:
  "parsePodCapacity ParseQuantity (annotations(k := v)) =
     (if k = nodeGroupInstancePodCapacity
      then (case v of None \<Rightarrow> Inr None
            | Some val \<Rightarrow> parsePodCapacity ParseQuantity [nodeGroupInstancePodCapacity \<mapsto> val])
      else parsePodCapacity ParseQuantity annotations)"
  by (simp add: parsePodCapacity_def split: option.splits)

lemma capacity_keys_distinct:
  "nodeGroupInstanceCPUCapacity \<noteq> nodeGroupInstanceMemoryCapacity"
  "nodeGroupInstanceCPUCapacity \<noteq> nodeGroupInstancePodCapacity"
  "nodeGroupInstanceMemoryCapacity \<noteq> nodeGroupInstancePodCapacity"
  "nodeGroupInstanceMemoryCapacity \<noteq> nodeGroupInstanceCPUCapacity"
  "nodeGroupInstancePodCapacity \<noteq> nodeGroupInstanceCPUCapacity"
  "nodeGroupInstancePodCapacity \<noteq> nodeGroupInstanceMemoryCapacity"
  by (simp_all add: key_defs)

lemma parseCPUCapacity_empty:
  "annotations nodeGroupInstanceCPUCapacity = Some [] \<Longrightarrow>
     parseCPUCapacity ParseQuantity annotations = Inr None"
  by (simp add: parseCPUCapacity_def)

lemma parseMemoryCapacity_empty:
  "annotations nodeGroupInstanceMemoryCapacity = Some [] \<Longrightarrow>
     parseMemoryCapacity ParseQuantity annotations = Inr None"
  by (simp add: parseMemoryCapacity_def)

lemma parsePodCapacity_empty:
  "annotations nodeGroupInstancePodCapacity = Some [] \<Longrightarrow>
     parsePodCapacity ParseQuantity annotations = Inr None"
  by (simp add: parsePodCapacity_def)

text \<open>
  C8: on the metadata \<open>{min: "1", max: "5"}\<close> the scaling bounds are \<open>(1, 5)\<close>; on
  \<open>{min: "5", max: "1"}\<close> parsing fails with an invalid-bound error, the maximum being
  below the minimum; on \<open>{min: "-1", max: "5"}\<close> it fails with an invalid-bound error,
  the minimum being negative.
\<close>

theorem scalingBounds_examples:
  "parseScalingBounds [nodeGroupMinSizeAnnotationKey \<mapsto> ''1'', nodeGroupMaxSizeAnnotationKey \<mapsto> ''5'']
     = (1, 5, None)
   \<and> parseScalingBounds [nodeGroupMinSizeAnnotationKey \<mapsto> ''5'', nodeGroupMaxSizeAnnotationKey \<mapsto> ''1'']
     = (0, 0, Some errInvalidMaxAnnotation)
   \<and> isInvalidBoundValue errInvalidMaxAnnotation
   \<and> parseScalingBounds [nodeGroupMinSizeAnnotationKey \<mapsto> ''-1'', nodeGroupMaxSizeAnnotationKey \<mapsto> ''5'']
     = (0, 0, Some errInvalidMinAnnotation)
   \<and> isInvalidBoundValue errInvalidMinAnnotation"
  by (simp add: parseScalingBounds_def minSize_def maxSize_def Atoi_def digit_of_def key_defs)

text \<open>
  C3, as the code has it: when the max-size key is absent, \<open>maxSize\<close> reports the missing
  annotation, but \<open>parseScalingBounds\<close> lets that one error pass and goes on with the
  maximum \<open>0\<close>. It therefore never fails with a missing-bound error: it succeeds with
  \<open>(0, 0)\<close> when the minimum is absent or is \<open>0\<close>, and in every other case it fails with an
  invalid-bound error (a minimum that is no integer or is negative, or a positive
  minimum, which is above the maximum \<open>0\<close>).
\<close>

theorem scalingBounds_missing_max:
  assumes "annotations nodeGroupMaxSizeAnnotationKey = None"
  shows "maxSize annotations = (0, Some errMissingMaxAnnotation)
    \<and> (if fst (minSize annotations) = 0
          \<and> (snd (minSize annotations) = None
             \<or> snd (minSize annotations) = Some errMissingMinAnnotation)
       then parseScalingBounds annotations = (0, 0, None)
       else (\<exists>err. parseScalingBounds annotations = (0, 0, Some err)
               \<and> isInvalidBoundValue err \<and> \<not> isMissingBound err))"
  using assms
  by (auto simp: parseScalingBounds_def minSize_def maxSize_def split: option.splits sum.splits prod.splits)

theorem scalingBounds_missing_max_witness:
  "Map.empty nodeGroupMaxSizeAnnotationKey = None
   \<and> maxSize Map.empty = (0, Some errMissingMaxAnnotation)
   \<and> parseScalingBounds Map.empty = (0, 0, None)
   \<and> [nodeGroupMinSizeAnnotationKey \<mapsto> ''3''] nodeGroupMaxSizeAnnotationKey = None
   \<and> (\<exists>err. parseScalingBounds [nodeGroupMinSizeAnnotationKey \<mapsto> ''3''] = (0, 0, Some err)
               \<and> isInvalidBoundValue err \<and> \<not> isMissingBound err)"
  using scalingBounds_missing_max [of Map.empty]
    scalingBounds_missing_max [of "[nodeGroupMinSizeAnnotationKey \<mapsto> ''3'']"]
  by (simp add: minSize_def Atoi_def digit_of_def key_defs)

text \<open>
  The claim C3 as it is written, that without a max-size key the parser fails with a
  missing-bound error, is false: with no annotations at all the parser succeeds.
\<close>

theorem scalingBounds_missing_max_counterexample:
  "\<not> (\<forall>annotations. annotations nodeGroupMaxSizeAnnotationKey = None \<longrightarrow>
        (\<exists>minSz maxSz err. parseScalingBounds annotations = (minSz, maxSz, Some err)
           \<and> isMissingBound err))"
proof
  assume "\<forall>annotations. annotations nodeGroupMaxSizeAnnotationKey = None \<longrightarrow>
        (\<exists>minSz maxSz err. parseScalingBounds annotations = (minSz, maxSz, Some err)
           \<and> isMissingBound err)"
  then have "\<exists>minSz maxSz err. parseScalingBounds Map.empty = (minSz, maxSz, Some err)
           \<and> isMissingBound err" by simp
  then show False by (simp add: parseScalingBounds_def minSize_def maxSize_def)
qed

text \<open>
  C10: a capacity key (cpu, memory or pods) that is bound to the empty string is treated
  exactly like an absent key: the parser of that dimension returns no hint and no error,
  and the three hints together are what they are once the key is removed. This holds
  whatever the quantity parser does with the empty string.
\<close>

theorem capacity_empty_string:
  "(annotations nodeGroupInstanceCPUCapacity = Some [] \<longrightarrow>
      parseCPUCapacity ParseQuantity annotations = Inr None
      \<and> parseCapacityValues ParseQuantity annotations
          = parseCapacityValues ParseQuantity (annotations(nodeGroupInstanceCPUCapacity := None)))
   \<and> (annotations nodeGroupInstanceMemoryCapacity = Some [] \<longrightarrow>
      parseMemoryCapacity ParseQuantity annotations = Inr None
      \<and> parseCapacityValues ParseQuantity annotations
          = parseCapacityValues ParseQuantity (annotations(nodeGroupInstanceMemoryCapacity := None)))
   \<and> (annotations nodeGroupInstancePodCapacity = Some [] \<longrightarrow>
      parsePodCapacity ParseQuantity annotations = Inr None
      \<and> parseCapacityValues ParseQuantity annotations
          = parseCapacityValues ParseQuantity (annotations(nodeGroupInstancePodCapacity := None)))"
  by (simp add: parseCapacityValues_def parseCPUCapacity_upd parseMemoryCapacity_upd
      parsePodCapacity_upd capacity_keys_distinct parseCPUCapacity_empty
      parseMemoryCapacity_empty parsePodCapacity_empty cong: sum.case_cong)

theorem capacity_empty_string_witness:
  "(let annotations = [nodeGroupInstanceCPUCapacity \<mapsto> [], nodeGroupInstanceMemoryCapacity \<mapsto> [],
        nodeGroupInstancePodCapacity \<mapsto> []];
        ParseQuantity = (\<lambda>val. if val = [] then Inl (External ''ErrFormatWrong'') else Inr (0::int))
    in annotations nodeGroupInstanceCPUCapacity = Some []
       \<and> annotations nodeGroupInstanceMemoryCapacity = Some []
       \<and> annotations nodeGroupInstancePodCapacity = Some []
       \<and> parseCPUCapacity ParseQuantity annotations = Inr None
       \<and> parseMemoryCapacity ParseQuantity annotations = Inr None
       \<and> parsePodCapacity ParseQuantity annotations = Inr None
       \<and> parseCapacityValues ParseQuantity annotations = Inr (None, None, None))"
  using capacity_empty_string [of "[nodeGroupInstanceCPUCapacity \<mapsto> [], nodeGroupInstanceMemoryCapacity \<mapsto> [],
        nodeGroupInstancePodCapacity \<mapsto> []]" "(\<lambda>val. if val = [] then Inl (External ''ErrFormatWrong'') else Inr (0::int))"]
  by (simp add: parseCapacityValues_def parseCPUCapacity_def parseMemoryCapacity_def
      parsePodCapacity_def key_defs)

end
